theory Spec2Isabelle
  imports Complex_Main
begin

section \<open>Data model\<close>

text \<open>
  The repository holds three training scripts: \<^verbatim>\<open>2-classification_anime/py/main.py\<close>,
  \<^verbatim>\<open>2_classification_food101_dp/py/main.py\<close> and \<^verbatim>\<open>3-distribution_training/py/main.py\<close>.
  Each is modelled as a function from the parsed arguments, the host environment and the
  world (file system and the log of calls made to external collaborators) to an outcome.
  The classifier, the dataset readers and the bodies of \<^verbatim>\<open>train\<close> and \<^verbatim>\<open>validate\<close> are
  external: a call to one of them is an event of the log, and the accuracy a validation
  pass returns is read from the environment. Accuracies are real numbers (a floating-point
  NaN is not modelled); counts are natural numbers. Failures inside the external
  collaborators, other than a file or directory that is not there, are not modelled.
\<close>

text \<open>The object a model variable refers to: the network and the wrappers put around it.\<close>

datatype module = Net | Amp module | DataParallel module | DistributedDataParallel module

datatype optimizer = SGD | AmpOptimizer optimizer

text \<open>
  Parameter states are symbolic: the list of the epochs whose training pass has been applied
  to the pretrained weights. All wrappers of one network share one parameter state.
\<close>

type_synonym params = "nat list"

record args =
  seed :: int
  apex :: bool
  evaluate :: bool
  restart :: bool
  resume :: string
  epochs :: nat
  start_epoch :: nat
  batch_size :: nat
  workers :: nat
  path2weight :: string
  exp_name :: string
  distributed :: bool

record checkpoint =
  ck_model :: params
  ck_optimizer :: params
  ck_scheduler :: nat
  ck_epoch :: nat
  ck_best_acc :: real
  ck_args :: args

datatype payload = StateDict module params | Bundle checkpoint

datatype node = Dir | File payload

text \<open>
  The host: whether \<^verbatim>\<open>apex.amp\<close> could be imported, \<^verbatim>\<open>torch.cuda.device_count()\<close>, the
  dataset lengths, the accuracy returned by the validation pass of each epoch, and the
  rank and world size a launcher put into the environment variables, if any.
\<close>

record env =
  amp_available :: bool
  device_count :: nat
  train_size :: nat
  val_size :: nat
  val_acc :: "nat \<Rightarrow> real"
  launch :: "(nat \<times> nat) option"

datatype event =
    SeedEverything int
  | Mkdir string
  | InitDistributed
  | Device
  | Writer
  | Loader bool nat nat
  | Model
  | Optimizer
  | AmpInitialize
  | Parallel module
  | Load string
  | LoadStateDict module params
  | Scheduler
  | SetEpoch nat
  | Train nat nat
  | Validate nat
  | SchedulerStep
  | Save string payload
  | CloseWriter

record world =
  fs :: "string \<rightharpoonup> node"
  trace :: "event list"

datatype error =
    RuntimeError string
  | ZeroDivisionError
  | FileNotFoundError string
  | FileExistsError string
  | IsADirectoryError string
  | KeyError

datatype 'a outcome = Raise error world | Return 'a world

fun world_of :: "'a outcome \<Rightarrow> world" where
  "world_of (Raise e w) = w"
| "world_of (Return a w) = w"

fun raised :: "'a outcome \<Rightarrow> error option" where
  "raised (Raise e w) = Some e"
| "raised (Return a w) = None"

definition emit :: "event \<Rightarrow> world \<Rightarrow> world" where
  "emit ev w = w\<lparr>trace := trace w @ [ev]\<rparr>"

section \<open>File system and serialisation\<close>

text \<open>\<^verbatim>\<open>posixpath.dirname\<close>: the head up to the last slash, trailing slashes stripped
  unless the head is slashes only.\<close>

definition rstrip_slash :: "string \<Rightarrow> string" where
  "rstrip_slash p = rev (dropWhile (\<lambda>c. c = CHR ''/'') (rev p))"

definition dirname :: "string \<Rightarrow> string" where
  "dirname p =
     (let head = rev (dropWhile (\<lambda>c. c \<noteq> CHR ''/'') (rev p))
      in if rstrip_slash head = [] then head else rstrip_slash head)"

definition os_path_exists :: "string \<Rightarrow> world \<Rightarrow> bool" where
  "os_path_exists p w = (fs w p \<noteq> None)"

definition os_mkdir :: "string \<Rightarrow> world \<Rightarrow> unit outcome" where
  "os_mkdir p w =
     (if fs w p \<noteq> None then Raise (FileExistsError p) w
      else Return () (emit (Mkdir p) (w\<lparr>fs := (fs w)(p \<mapsto> Dir)\<rparr>)))"

text \<open>\<^verbatim>\<open>os.makedirs(p, exist_ok=True)\<close>; the ancestors it also creates are not recorded.\<close>

definition os_makedirs :: "string \<Rightarrow> world \<Rightarrow> unit outcome" where
  "os_makedirs p w =
     (case fs w p of
        Some Dir \<Rightarrow> Return () w
      | Some (File x) \<Rightarrow> Raise (FileExistsError p) w
      | None \<Rightarrow> Return () (emit (Mkdir p) (w\<lparr>fs := (fs w)(p \<mapsto> Dir)\<rparr>)))"

text \<open>
  \<^verbatim>\<open>torch.save(obj, path)\<close> opens the path for writing: the directory of the path has to
  exist (a path without a directory part lies in the working directory), and the file
  replaces whatever file was there.
\<close>

definition parent_exists :: "string \<Rightarrow> world \<Rightarrow> bool" where
  "parent_exists p w = (dirname p = [] \<or> fs w (dirname p) = Some Dir)"

definition torch_save :: "payload \<Rightarrow> string \<Rightarrow> world \<Rightarrow> unit outcome" where
  "torch_save obj p w =
     (let w1 = emit (Save p obj) w in
      if \<not> parent_exists p w then Raise (FileNotFoundError p) w1
      else if fs w p = Some Dir then Raise (IsADirectoryError p) w1
      else Return () (w1\<lparr>fs := (fs w1)(p \<mapsto> File obj)\<rparr>))"

definition torch_load :: "string \<Rightarrow> world \<Rightarrow> payload outcome" where
  "torch_load p w =
     (let w1 = emit (Load p) w in
      case fs w p of
        Some (File obj) \<Rightarrow> Return obj w1
      | Some Dir \<Rightarrow> Raise (IsADirectoryError p) w1
      | None \<Rightarrow> Raise (FileNotFoundError p) w1)"

section \<open>Data loaders\<close>

text \<open>
  Modelled from the spec: \<^verbatim>\<open>torch.utils.data.DataLoader\<close> is not part of the sources. A
  loader cuts the index sequence its sampler produces into consecutive batches of
  \<open>bsize\<close> indices; an undersized final batch is discarded when \<open>drop_last\<close> is set
  and kept otherwise. With a batch size of zero there is no batch.
\<close>

record loader =
  sampler_len :: nat
  bsize :: nat
  drop_last :: bool
  num_workers :: nat

function batches :: "nat \<Rightarrow> bool \<Rightarrow> 'a list \<Rightarrow> 'a list list" where
  "batches b dl xs =
     (if b = 0 then []
      else if b \<le> length xs then take b xs # batches b dl (drop b xs)
      else if xs \<noteq> [] \<and> \<not> dl then [xs]
      else [])"
  by pat_completeness auto
termination
  by (relation "measure (\<lambda>(b, dl, xs). length xs)") auto

declare batches.simps [simp del]

definition iterate :: "loader \<Rightarrow> 'a list \<Rightarrow> 'a list list" where
  "iterate l xs = batches (bsize l) (drop_last l) xs"

definition len_loader :: "loader \<Rightarrow> nat" where
  "len_loader l =
     (if drop_last l then sampler_len l div bsize l
      else (sampler_len l + bsize l - 1) div bsize l)"

text \<open>Modelled from the spec: the distributed sampler gives each of the \<open>world_size\<close>
  ranks a shard of \<open>\<lceil>n / world_size\<rceil>\<close> indices; the other samplers cover the dataset.\<close>

definition world_size :: "env \<Rightarrow> nat" where
  "world_size env = (case launch env of None \<Rightarrow> 1 | Some (r, n) \<Rightarrow> n)"

definition rank :: "env \<Rightarrow> nat" where
  "rank env = (case launch env of None \<Rightarrow> 0 | Some (r, n) \<Rightarrow> r)"

definition sampler_length :: "args \<Rightarrow> env \<Rightarrow> nat \<Rightarrow> nat" where
  "sampler_length a env n =
     (if distributed a then (n + world_size env - 1) div world_size env else n)"

definition DataLoader :: "nat \<Rightarrow> nat \<Rightarrow> nat \<Rightarrow> bool \<Rightarrow> loader" where
  "DataLoader n b nw dl = \<lparr>sampler_len = n, bsize = b, drop_last = dl, num_workers = nw\<rparr>"

section \<open>Run state and external collaborators\<close>

text \<open>
  The variables of \<^verbatim>\<open>main\<close>. \<open>cur_args\<close> is the argument object, which two of the
  scripts assign to. \<open>best_acc1\<close> is a variable of the anime and the distributed script
  only. \<open>sched_epoch\<close> is the number of steps the scheduler has taken.
\<close>

record run =
  cur_args :: args
  train_loader :: loader
  val_loader :: loader
  model :: module
  model_without_ddp :: module
  optimizer :: optimizer
  net_params :: params
  opt_state :: params
  sched_epoch :: nat
  iteration :: nat
  best_acc :: real
  best_acc1 :: real

definition and_then :: "'a outcome \<Rightarrow> ('a \<Rightarrow> world \<Rightarrow> 'b outcome) \<Rightarrow> 'b outcome" where
  "and_then r f = (case r of Raise e w \<Rightarrow> Raise e w | Return a w \<Rightarrow> f a w)"

text \<open>\<^verbatim>\<open>amp.initialize(model, optimizer, opt_level)\<close>.\<close>

definition amp_initialize :: "module \<times> optimizer \<Rightarrow> module \<times> optimizer" where
  "amp_initialize mo = (Amp (fst mo), AmpOptimizer (snd mo))"

text \<open>The precision step of all three scripts: \<^verbatim>\<open>if args.apex: model, optimizer = amp.initialize(...)\<close>.\<close>

definition precision_wrap :: "args \<Rightarrow> module \<times> optimizer \<Rightarrow> module \<times> optimizer" where
  "precision_wrap a mo = (if apex a then amp_initialize mo else mo)"

definition apply_precision :: "run \<Rightarrow> world \<Rightarrow> run \<times> world" where
  "apply_precision s w =
     (s\<lparr>model := fst (precision_wrap (cur_args s) (model s, optimizer s)),
        optimizer := snd (precision_wrap (cur_args s) (model s, optimizer s))\<rparr>,
      if apex (cur_args s) then emit AmpInitialize w else w)"

text \<open>
  \<^verbatim>\<open>model_without_ddp = model; if c: model = W(model); model_without_ddp = model.module\<close>,
  where the attribute \<open>module\<close> of a wrapper is the object it was built from.
\<close>

definition apply_parallel :: "bool \<Rightarrow> (module \<Rightarrow> module) \<Rightarrow> run \<Rightarrow> world \<Rightarrow> run \<times> world" where
  "apply_parallel c W s w =
     (if c then (s\<lparr>model := W (model s), model_without_ddp := model s\<rparr>,
                 emit (Parallel (W (model s))) w)
      else (s\<lparr>model_without_ddp := model s\<rparr>, w))"

text \<open>
  Modelled from the spec: \<^verbatim>\<open>train\<close> and \<^verbatim>\<open>validate\<close> come from \<^verbatim>\<open>train_val\<close>, which is
  not part of the sources. A training pass is logged with its epoch and the iteration count it was given, and moves
  the parameters and the optimizer state on; a validation pass is logged with the
  iteration count it was given.
\<close>

definition train :: "nat \<Rightarrow> run \<Rightarrow> world \<Rightarrow> run \<times> world" where
  "train epoch s w =
     (s\<lparr>net_params := net_params s @ [epoch], opt_state := opt_state s @ [epoch]\<rparr>,
      emit (Train epoch (iteration s)) w)"

definition validate :: "run \<Rightarrow> world \<Rightarrow> world" where
  "validate s w = emit (Validate (iteration s)) w"

definition scheduler_step :: "run \<Rightarrow> world \<Rightarrow> run \<times> world" where
  "scheduler_step s w = (s\<lparr>sched_epoch := Suc (sched_epoch s)\<rparr>, emit SchedulerStep w)"

text \<open>\<^verbatim>\<open>target.load_state_dict(param)\<close>: the file has to hold a parameter state.\<close>

definition load_state_dict :: "module \<Rightarrow> payload \<Rightarrow> run \<Rightarrow> world \<Rightarrow> run outcome" where
  "load_state_dict target param s w =
     (case param of
        StateDict m p \<Rightarrow> Return (s\<lparr>net_params := p\<rparr>) (emit (LoadStateDict target p) w)
      | Bundle ck \<Rightarrow> Raise (RuntimeError ''state_dict'') w)"

fun epoch_loop :: "(nat \<Rightarrow> run \<Rightarrow> world \<Rightarrow> run outcome) \<Rightarrow> nat list \<Rightarrow> run \<Rightarrow> world \<Rightarrow> run outcome" where
  "epoch_loop body [] s w = Return s w"
| "epoch_loop body (e # es) s w =
     (case body e s w of
        Raise err w' \<Rightarrow> Raise err w'
      | Return s' w' \<Rightarrow> epoch_loop body es s' w')"

definition finish :: "run \<Rightarrow> world \<Rightarrow> unit outcome" where
  "finish s w = Return () (emit CloseWriter w)"

section \<open>The food101 script\<close>

definition weight_name :: "args \<Rightarrow> string" where
  "weight_name a = path2weight a @ ''/'' @ exp_name a @ ''_mobilenetv2_best.pth''"

definition checkpoint_name :: "args \<Rightarrow> string" where
  "checkpoint_name a = ''weight/'' @ exp_name a @ ''_checkpoint.pth''"

text \<open>\<^verbatim>\<open>load_data\<close>: the training loader drops the last batch, the validation loader keeps it.\<close>

definition load_data :: "args \<Rightarrow> env \<Rightarrow> world \<Rightarrow> (loader \<times> loader) \<times> world" where
  "load_data a env w =
     ((DataLoader (train_size env) (batch_size a) (workers a) True,
       DataLoader (val_size env) (batch_size a) (workers a) False),
      emit (Loader False (batch_size a) (workers a))
        (emit (Loader True (batch_size a) (workers a)) w))"

text \<open>Lines 71 to 92: seeding, the mixed-precision check, the output directory, the
  writer, the device, the loaders, the model and the optimizer.\<close>

definition startup_food101 :: "args \<Rightarrow> env \<Rightarrow> world \<Rightarrow> run outcome" where
  "startup_food101 a env w0 =
     (let w1 = emit (SeedEverything (seed a)) w0 in
      if apex a \<and> \<not> amp_available env then Raise (RuntimeError ''apex'') w1
      else and_then (os_makedirs (path2weight a) w1) (\<lambda>u w2.
        let w3 = emit Device (emit Writer w2);
            ld = load_data a env w3;
            w4 = emit Optimizer (emit Model (snd ld))
        in Return \<lparr>cur_args = a, train_loader = fst (fst ld), val_loader = snd (fst ld),
                   model = Net, model_without_ddp = Net, optimizer = SGD,
                   net_params = [], opt_state = [], sched_epoch = 0, iteration = 0,
                   best_acc = 0, best_acc1 = 0\<rparr> w4))"

text \<open>Lines 94 to 103: evaluation only.\<close>

definition evaluate_food101 :: "env \<Rightarrow> run \<Rightarrow> world \<Rightarrow> unit outcome" where
  "evaluate_food101 env s w =
     and_then (torch_load (weight_name (cur_args s)) w) (\<lambda>param w1.
     and_then (load_state_dict (model s) param s w1) (\<lambda>s1 w2.
       let sw = apply_parallel (1 < device_count env) DataParallel s1 w2
       in Return () (validate (fst sw) (snd sw))))"

text \<open>Lines 105 to 119: precision wrapper, parallel wrapper, scheduler, best accuracy.\<close>

definition prepare_food101 :: "env \<Rightarrow> run \<Rightarrow> world \<Rightarrow> run \<times> world" where
  "prepare_food101 env s w =
     (let sw1 = apply_precision s w;
          sw2 = apply_parallel (1 < device_count env) DataParallel (fst sw1) (snd sw1)
      in ((fst sw2)\<lparr>sched_epoch := 0, best_acc := 0\<rparr>, emit Scheduler (snd sw2)))"

text \<open>Lines 121 to 130: the restart.\<close>

definition restart_food101 :: "run \<Rightarrow> world \<Rightarrow> run outcome" where
  "restart_food101 s w =
     (if restart (cur_args s) then
        and_then (torch_load (checkpoint_name (cur_args s)) w) (\<lambda>obj w1.
          case obj of
            StateDict m p \<Rightarrow> Raise KeyError w1
          | Bundle ck \<Rightarrow>
              Return (s\<lparr>net_params := ck_model ck,
                        opt_state := ck_optimizer ck,
                        sched_epoch := ck_scheduler ck,
                        cur_args := (cur_args s)\<lparr>start_epoch := ck_epoch ck + 1\<rparr>,
                        best_acc := ck_best_acc ck,
                        iteration := epochs (cur_args s) * len_loader (train_loader s)\<rparr>)
                     (emit (LoadStateDict (model_without_ddp s) (ck_model ck)) w1))
      else Return s w)"

text \<open>Lines 135 to 157: one epoch.\<close>

definition bundle_of :: "nat \<Rightarrow> run \<Rightarrow> checkpoint" where
  "bundle_of epoch s =
     \<lparr>ck_model = net_params s, ck_optimizer = opt_state s, ck_scheduler = sched_epoch s,
      ck_epoch = epoch, ck_best_acc = best_acc s, ck_args = cur_args s\<rparr>"

definition epoch_food101 :: "env \<Rightarrow> nat \<Rightarrow> run \<Rightarrow> world \<Rightarrow> run outcome" where
  "epoch_food101 env epoch s w =
     (let sw1 = train epoch s w;
          s2 = (fst sw1)\<lparr>iteration := iteration s + len_loader (train_loader s)\<rparr>;
          acc = val_acc env epoch;
          w2 = validate s2 (snd sw1);
          sw3 = scheduler_step s2 w2;
          is_best = (acc > best_acc s);
          s4 = (fst sw3)\<lparr>best_acc := max acc (best_acc s)\<rparr>
      in if is_best then
           and_then (torch_save (StateDict (model_without_ddp s4) (net_params s4))
                       (weight_name (cur_args s4)) (snd sw3)) (\<lambda>u w4.
           and_then (torch_save (Bundle (bundle_of epoch s4))
                       (checkpoint_name (cur_args s4)) w4) (\<lambda>u w5.
             Return s4 w5))
         else Return s4 (snd sw3))"

definition main_food101 :: "args \<Rightarrow> env \<Rightarrow> world \<Rightarrow> unit outcome" where
  "main_food101 a env w0 =
     and_then (startup_food101 a env w0) (\<lambda>s w.
       if evaluate a then evaluate_food101 env s w
       else
         let sw = prepare_food101 env s w in
         and_then (restart_food101 (fst sw) (snd sw)) (\<lambda>s1 w1.
         and_then (epoch_loop (epoch_food101 env)
                     [start_epoch (cur_args s1) ..< epochs (cur_args s1) + 1] s1 w1)
           finish))"

section \<open>The anime script\<close>

definition saved_weight :: string where
  "saved_weight = ''weight/AnimeFace_resnet18_best.pth''"

text \<open>\<^verbatim>\<open>if not os.path.exists('weight'): os.mkdir('weight')\<close>.\<close>

definition ensure_weight_dir :: "world \<Rightarrow> unit outcome" where
  "ensure_weight_dir w =
     (if \<not> os_path_exists ''weight'' w then os_mkdir ''weight'' w else Return () w)"

text \<open>Lines 25 to 82.\<close>

definition startup_anime :: "args \<Rightarrow> env \<Rightarrow> world \<Rightarrow> run outcome" where
  "startup_anime a env w0 =
     (let w1 = emit (SeedEverything (seed a)) w0 in
      if apex a \<and> \<not> amp_available env then Raise (RuntimeError ''apex'') w1
      else and_then (ensure_weight_dir w1) (\<lambda>u w2.
        let w3 = emit Writer (emit Device w2);
            tl = DataLoader (train_size env) (batch_size a) (workers a) True;
            w4 = emit (Loader True (batch_size a) (workers a)) w3;
            vl = DataLoader (val_size env) (batch_size a) (workers a) False;
            w5 = emit (Loader False (batch_size a) (workers a)) w4;
            w6 = emit Optimizer (emit Model w5)
        in Return \<lparr>cur_args = a, train_loader = tl, val_loader = vl,
                   model = Net, model_without_ddp = Net, optimizer = SGD,
                   net_params = [], opt_state = [], sched_epoch = 0, iteration = 0,
                   best_acc = 0, best_acc1 = 0\<rparr> w6))"

text \<open>Lines 84 to 92: evaluation only.\<close>

definition evaluate_anime :: "env \<Rightarrow> run \<Rightarrow> world \<Rightarrow> unit outcome" where
  "evaluate_anime env s w =
     and_then (torch_load (resume (cur_args s)) w) (\<lambda>param w1.
     and_then (load_state_dict (model s) param s w1) (\<lambda>s1 w2.
       let sw = apply_parallel (1 < device_count env) DataParallel s1 w2
       in Return () (validate (fst sw) (snd sw))))"

text \<open>Lines 94 to 108.\<close>

definition prepare_anime :: "env \<Rightarrow> run \<Rightarrow> world \<Rightarrow> run \<times> world" where
  "prepare_anime env s w =
     (let sw1 = apply_precision s w;
          sw2 = apply_parallel (1 < device_count env) DataParallel (fst sw1) (snd sw1)
      in ((fst sw2)\<lparr>sched_epoch := 0, best_acc := 0\<rparr>, emit Scheduler (snd sw2)))"

text \<open>Lines 112 to 122: one epoch. The maximum is assigned to \<open>best_acc1\<close>.\<close>

definition epoch_anime :: "env \<Rightarrow> nat \<Rightarrow> run \<Rightarrow> world \<Rightarrow> run outcome" where
  "epoch_anime env epoch s w =
     (let sw1 = train epoch s w;
          s2 = (fst sw1)\<lparr>iteration := iteration s + len_loader (train_loader s)\<rparr>;
          acc = val_acc env epoch;
          w2 = validate s2 (snd sw1);
          sw3 = scheduler_step s2 w2;
          is_best = (acc > best_acc s);
          s4 = (fst sw3)\<lparr>best_acc1 := max acc (best_acc s)\<rparr>
      in if is_best then
           and_then (torch_save (StateDict (model_without_ddp s4) (net_params s4))
                       saved_weight (snd sw3)) (\<lambda>u w4.
             Return s4 w4)
         else Return s4 (snd sw3))"

definition main_anime :: "args \<Rightarrow> env \<Rightarrow> world \<Rightarrow> unit outcome" where
  "main_anime a env w0 =
     and_then (startup_anime a env w0) (\<lambda>s w.
       if evaluate a then evaluate_anime env s w
       else
         let sw = prepare_anime env s w in
         and_then (epoch_loop (epoch_anime env) [1 ..< epochs a + 1] (fst sw) (snd sw))
           finish)"

section \<open>The distributed script\<close>

text \<open>
  Modelled from the spec: \<^verbatim>\<open>init_distributed_mode\<close> and \<^verbatim>\<open>save_on_master\<close> come from
  \<^verbatim>\<open>utils\<close>, which is not part of the sources. The first sets the distributed flag when the
  launcher's environment variables are present and clears it otherwise; the second saves on
  the main rank, rank 0, and does nothing on any other rank.
\<close>

definition init_distributed_mode :: "args \<Rightarrow> env \<Rightarrow> world \<Rightarrow> args \<times> world" where
  "init_distributed_mode a env w = (a\<lparr>distributed := (launch env \<noteq> None)\<rparr>, emit InitDistributed w)"

definition is_main_process :: "env \<Rightarrow> bool" where
  "is_main_process env = (rank env = 0)"

definition save_on_master :: "env \<Rightarrow> payload \<Rightarrow> string \<Rightarrow> world \<Rightarrow> unit outcome" where
  "save_on_master env obj p w = (if is_main_process env then torch_save obj p w else Return () w)"

text \<open>
  \<^verbatim>\<open>int(a / b)\<close> on non-negative integers: the true division raises on a zero divisor, and
  the truncated quotient is the integer quotient (the rounding of the floating-point
  quotient is not modelled).
\<close>

definition int_truediv :: "nat \<Rightarrow> nat \<Rightarrow> error + nat" where
  "int_truediv a b = (if b = 0 then Inl ZeroDivisionError else Inr (a div b))"

text \<open>Lines 80 to 82: the per-process batch size and worker count.\<close>

definition per_process :: "args \<Rightarrow> nat \<Rightarrow> world \<Rightarrow> args outcome" where
  "per_process a ngpus_per_node w =
     (if distributed a then
        (case int_truediv (batch_size a) ngpus_per_node of
           Inl e \<Rightarrow> Raise e w
         | Inr b \<Rightarrow>
             (case int_truediv (workers (a\<lparr>batch_size := b\<rparr>) + ngpus_per_node - 1) ngpus_per_node of
                Inl e \<Rightarrow> Raise e w
              | Inr nw \<Rightarrow> Return (a\<lparr>batch_size := b, workers := nw\<rparr>) w))
      else Return a w)"

text \<open>Lines 64 to 115.\<close>

definition startup_dist :: "args \<Rightarrow> env \<Rightarrow> world \<Rightarrow> run outcome" where
  "startup_dist a0 env w0 =
     (let w1 = emit (SeedEverything (seed a0)) w0 in
      if apex a0 \<and> \<not> amp_available env then Raise (RuntimeError ''apex'') w1
      else and_then (ensure_weight_dir w1) (\<lambda>u w2.
        let aw = init_distributed_mode a0 env w2;
            w3 = emit Writer (emit Device (snd aw))
        in and_then (per_process (fst aw) (device_count env) w3) (\<lambda>a w4.
          let tl = DataLoader (sampler_length a env (train_size env)) (batch_size a) (workers a) True;
              w5 = emit (Loader True (batch_size a) (workers a)) w4;
              vl = DataLoader (sampler_length a env (val_size env)) (batch_size a) (workers a) False;
              w6 = emit (Loader False (batch_size a) (workers a)) w5;
              w7 = emit Optimizer (emit Model w6);
              s = \<lparr>cur_args = a, train_loader = tl, val_loader = vl,
                   model = Net, model_without_ddp = Net, optimizer = SGD,
                   net_params = [], opt_state = [], sched_epoch = 0, iteration = 0,
                   best_acc = 0, best_acc1 = 0\<rparr>;
              sw1 = apply_precision s w7;
              sw2 = apply_parallel (distributed a) DistributedDataParallel (fst sw1) (snd sw1)
          in Return (fst sw2) (snd sw2))))"

text \<open>Lines 118 to 124: evaluation only.\<close>

definition evaluate_dist :: "run \<Rightarrow> world \<Rightarrow> unit outcome" where
  "evaluate_dist s w =
     and_then (torch_load (resume (cur_args s)) w) (\<lambda>param w1.
     and_then (load_state_dict (model_without_ddp s) param s w1) (\<lambda>s1 w2.
       Return () (validate s1 w2)))"

text \<open>Lines 133 to 145: one epoch. The maximum is assigned to \<open>best_acc1\<close>.\<close>

definition epoch_dist :: "env \<Rightarrow> nat \<Rightarrow> run \<Rightarrow> world \<Rightarrow> run outcome" where
  "epoch_dist env epoch s w =
     (let w0 = (if distributed (cur_args s) then emit (SetEpoch epoch) w else w);
          sw1 = train epoch s w0;
          s2 = (fst sw1)\<lparr>iteration := iteration s + len_loader (train_loader s)\<rparr>;
          acc = val_acc env epoch;
          w2 = validate s2 (snd sw1);
          sw3 = scheduler_step s2 w2;
          is_best = (acc > best_acc s);
          s4 = (fst sw3)\<lparr>best_acc1 := max acc (best_acc s)\<rparr>
      in if is_best then
           and_then (save_on_master env (StateDict (model_without_ddp s4) (net_params s4))
                       saved_weight (snd sw3)) (\<lambda>u w4.
             Return s4 w4)
         else Return s4 (snd sw3))"

definition main_dist :: "args \<Rightarrow> env \<Rightarrow> world \<Rightarrow> unit outcome" where
  "main_dist a env w0 =
     and_then (startup_dist a env w0) (\<lambda>s w.
       if evaluate (cur_args s) then evaluate_dist s w
       else
         let s1 = s\<lparr>sched_epoch := 0, best_acc := 0\<rparr>;
             w1 = emit Scheduler w
         in and_then (epoch_loop (epoch_dist env) [1 ..< epochs (cur_args s) + 1] s1 w1)
              finish)"

section \<open>Observations on the log\<close>

text \<open>The events a run appends to the log of the world it starts in.\<close>

definition logged :: "world \<Rightarrow> 'a outcome \<Rightarrow> event list" where
  "logged w r = drop (length (trace w)) (trace (world_of r))"

definition is_loader :: "event \<Rightarrow> bool" where
  "is_loader ev = (case ev of Loader dl b nw \<Rightarrow> True | _ \<Rightarrow> False)"

definition is_train :: "event \<Rightarrow> bool" where
  "is_train ev = (case ev of Train e i \<Rightarrow> True | _ \<Rightarrow> False)"

definition is_save :: "event \<Rightarrow> bool" where
  "is_save ev = (case ev of Save p obj \<Rightarrow> True | _ \<Rightarrow> False)"

definition is_validate :: "event \<Rightarrow> bool" where
  "is_validate ev = (case ev of Validate i \<Rightarrow> True | _ \<Rightarrow> False)"

definition is_set_epoch :: "event \<Rightarrow> bool" where
  "is_set_epoch ev = (case ev of SetEpoch e \<Rightarrow> True | _ \<Rightarrow> False)"



text \<open>The epochs of the training passes in a log, in order.\<close>

definition trained :: "event list \<Rightarrow> nat list" where
  "trained evs = concat (map (\<lambda>ev. case ev of Train e i \<Rightarrow> [e] | _ \<Rightarrow> []) evs)"

text \<open>The epochs recorded in the resume-checkpoint bundles saved in a log, in order.\<close>

definition bundle_epochs :: "event list \<Rightarrow> nat list" where
  "bundle_epochs evs =
     concat (map (\<lambda>ev. case ev of
                          Save q obj \<Rightarrow> (case obj of Bundle ck \<Rightarrow> [ck_epoch ck] | StateDict m p \<Rightarrow> [])
                        | _ \<Rightarrow> []) evs)"





section \<open>Expected logs\<close>

text \<open>
  Descriptions of the logs the scripts are shown to produce. \<open>quiet\<close> events are those
  of start-up and loading; \<open>notified_from\<close> checks that each training pass directly
  follows the notification of its epoch; \<open>unnotified\<close> says that a world extends
  another without any notification.
\<close>

definition quiet :: "event list \<Rightarrow> bool" where
  "quiet evs = list_all (\<lambda>ev. case ev of Train e i \<Rightarrow> False | SetEpoch e \<Rightarrow> False | Save q obj \<Rightarrow> False | _ \<Rightarrow> True) evs"

primrec notified_from :: "event option \<Rightarrow> event list \<Rightarrow> bool" where
  "notified_from prev [] = True"
| "notified_from prev (ev # evs) =
     ((case ev of Train e i \<Rightarrow> prev = Some (SetEpoch e) | _ \<Rightarrow> True) \<and> notified_from (Some ev) evs)"

definition last_of :: "event option \<Rightarrow> event list \<Rightarrow> event option" where
  "last_of prev xs = (if xs = [] then prev else Some (last xs))"

definition unnotified :: "world \<Rightarrow> world \<Rightarrow> bool" where
  "unnotified w0 w = (\<exists>evs. trace w = trace w0 @ evs \<and> filter is_set_epoch evs = [])"


text \<open>
  The distributed script after start-up: its arguments, the model saved and loaded, its
  state, and its log up to the evaluate-only branch and through it.
\<close>

definition dist_args :: "args \<Rightarrow> env \<Rightarrow> args" where
  "dist_args a env =
     (if launch env \<noteq> None
      then a\<lparr>distributed := True, batch_size := batch_size a div device_count env,
              workers := (workers a + device_count env - 1) div device_count env\<rparr>
      else a\<lparr>distributed := False\<rparr>)"

definition dist_unwrapped :: "args \<Rightarrow> module" where
  "dist_unwrapped a = (if apex a then Amp Net else Net)"

definition dist_start :: "args \<Rightarrow> env \<Rightarrow> run" where
  "dist_start a env =
     \<lparr>cur_args = dist_args a env,
      train_loader = DataLoader (sampler_length (dist_args a env) env (train_size env))
                       (batch_size (dist_args a env)) (workers (dist_args a env)) True,
      val_loader = DataLoader (sampler_length (dist_args a env) env (val_size env))
                       (batch_size (dist_args a env)) (workers (dist_args a env)) False,
      model = (if launch env \<noteq> None then DistributedDataParallel (dist_unwrapped a)
               else dist_unwrapped a),
      model_without_ddp = dist_unwrapped a,
      optimizer = (if apex a then AmpOptimizer SGD else SGD),
      net_params = [], opt_state = [], sched_epoch = 0, iteration = 0,
      best_acc = 0, best_acc1 = 0\<rparr>"

definition dist_startup_events :: "args \<Rightarrow> env \<Rightarrow> world \<Rightarrow> event list" where
  "dist_startup_events a env w =
     [SeedEverything (seed a)] @ (if fs w ''weight'' = None then [Mkdir ''weight''] else []) @
     [InitDistributed, Device, Writer,
      Loader True (batch_size (dist_args a env)) (workers (dist_args a env)),
      Loader False (batch_size (dist_args a env)) (workers (dist_args a env)),
      Model, Optimizer] @
     (if apex a then [AmpInitialize] else []) @
     (if launch env \<noteq> None then [Parallel (DistributedDataParallel (dist_unwrapped a))] else [])"


text \<open>One epoch of the distributed script: its events, the state after it, and the
  events of a sequence of epochs.\<close>

definition dist_segment :: "env \<Rightarrow> run \<Rightarrow> nat \<Rightarrow> event list" where
  "dist_segment env s e =
     (if distributed (cur_args s) then [SetEpoch e] else []) @
     [Train e (iteration s), Validate (iteration s + len_loader (train_loader s)), SchedulerStep] @
     (if val_acc env e > best_acc s \<and> rank env = 0
      then [Save saved_weight (StateDict (model_without_ddp s) (net_params s @ [e]))] else [])"

definition dist_next :: "env \<Rightarrow> run \<Rightarrow> nat \<Rightarrow> run" where
  "dist_next env s e =
     s\<lparr>net_params := net_params s @ [e], opt_state := opt_state s @ [e],
       iteration := iteration s + len_loader (train_loader s),
       sched_epoch := Suc (sched_epoch s),
       best_acc1 := max (val_acc env e) (best_acc s)\<rparr>"

fun dist_events :: "env \<Rightarrow> run \<Rightarrow> nat list \<Rightarrow> event list" where
  "dist_events env s [] = []"
| "dist_events env s (e # es) = dist_segment env s e @ dist_events env (dist_next env s e) es"

text \<open>
  The log of the distributed script is either free of training events, or start-up events
  followed by the events of the first \<open>n\<close> epochs, all of them when the run completes.
\<close>

definition dist_shape :: "args \<Rightarrow> env \<Rightarrow> unit outcome \<Rightarrow> event list \<Rightarrow> bool" where
  "dist_shape a env r evs =
     ((quiet evs \<and> (raised r = None \<longrightarrow> evaluate a))
      \<or> (\<exists>pre n. quiet pre \<and> n \<le> epochs a \<and> \<not> evaluate a
           \<and> evs = pre @ dist_events env (dist_start a env) (take n [1..<epochs a + 1])
                   @ (if raised r = None then [CloseWriter] else [])
           \<and> (raised r = None \<longrightarrow> n = epochs a)))"





section \<open>Sample configurations\<close>

definition args0 :: args where
  "args0 = \<lparr>seed = 1, apex = False, evaluate = False, restart = False, resume = ''best.pth'',
            epochs = 2, start_epoch = 1, batch_size = 10, workers = 4,
            path2weight = ''weight'', exp_name = ''exp'', distributed = False\<rparr>"

definition env0 :: env where
  "env0 = \<lparr>amp_available = False, device_count = 1, train_size = 55, val_size = 55,
           val_acc = (\<lambda>e. if e = 1 then 50 else 30), launch = None\<rparr>"

definition world0 :: world where
  "world0 = \<lparr>fs = Map.empty, trace = []\<rparr>"

text \<open>A working directory that holds a checkpoint written after epoch 3.\<close>

definition world_ckpt :: world where
  "world_ckpt =
     \<lparr>fs = [''weight'' \<mapsto> Dir,
            ''weight/exp_checkpoint.pth'' \<mapsto>
              File (Bundle \<lparr>ck_model = [1, 2, 3], ck_optimizer = [1, 2, 3], ck_scheduler = 3,
                            ck_epoch = 3, ck_best_acc = 40, ck_args = args0\<lparr>epochs := 5\<rparr>\<rparr>)],
      trace = []\<rparr>"


text \<open>The environments of a launch with two ranks on a host with two devices.\<close>

definition ranks2 :: "nat \<Rightarrow> env" where
  "ranks2 r = env0\<lparr>launch := Some (r, 2), device_count := 2\<rparr>"

section \<open>Batching\<close>

lemma batches_sizes:
  "0 < b \<Longrightarrow> r < b \<Longrightarrow> length xs = b * k + r \<Longrightarrow>
   map length (batches b dl xs) = replicate k b @ (if 0 < r \<and> \<not> dl then [r] else [])"
proof (induction k arbitrary: xs)
  case 0
  then show ?case by (auto simp add: batches.simps [of b dl xs])
next
  case (Suc k)
  have "length (drop b xs) = b * k + r" using Suc.prems by simp
  from Suc.IH [OF Suc.prems(1,2) this] Suc.prems show ?case
    by (simp add: batches.simps [of b dl xs])
qed

lemma len_loader_drop: "r < b \<Longrightarrow> len_loader (DataLoader (b * k + r) b nw True) = k"
  by (simp add: len_loader_def DataLoader_def)

lemma len_loader_keep: "0 < r \<Longrightarrow> r < b \<Longrightarrow> len_loader (DataLoader (b * k + r) b nw False) = Suc k"
proof -
  assume a: "0 < r" "r < b"
  have "b * k + r + b - 1 = (r - 1) + b * Suc k" using a by simp
  moreover have "((r - 1) + b * Suc k) div b = Suc k" using a by (subst div_mult_self2) auto
  ultimately show ?thesis by (simp add: len_loader_def DataLoader_def)
qed

lemma trace_emit [simp]: "trace (emit ev w) = trace w @ [ev]"
  by (simp add: emit_def)

lemma fs_emit [simp]: "fs (emit ev w) = fs w"
  by (simp add: emit_def)

lemma ensure_weight_dir_returns:
  "\<exists>w'. ensure_weight_dir w = Return () w'
     \<and> trace w' = trace w @ (if fs w ''weight'' = None then [Mkdir ''weight''] else [])
     \<and> fs w' = (if fs w ''weight'' = None then (fs w)(''weight'' \<mapsto> Dir) else fs w)"
  by (simp add: ensure_weight_dir_def os_path_exists_def os_mkdir_def)

lemma startup_anime_loaders:
  "case startup_anime a env w of
     Raise e w' \<Rightarrow> apex a \<and> \<not> amp_available env
   | Return s w' \<Rightarrow> train_loader s = DataLoader (train_size env) (batch_size a) (workers a) True
        \<and> val_loader s = DataLoader (val_size env) (batch_size a) (workers a) False"
proof -
  obtain w' where "ensure_weight_dir (emit (SeedEverything (seed a)) w) = Return () w'"
    using ensure_weight_dir_returns by blast
  then show ?thesis by (simp add: startup_anime_def and_then_def Let_def)
qed

text \<open>
  C4: for a dataset of size \<open>B * k + r\<close> with \<open>0 < r < B\<close>, the training loader yields
  exactly \<open>k\<close> batches, each of size \<open>B\<close>, and the validation loader over a dataset of the
  same size yields \<open>k + 1\<close> batches, the last of size \<open>r\<close>; this holds for the loaders of
  \<^verbatim>\<open>load_data\<close> in the food101 script and for those of the anime script, whatever the
  order \<open>xs\<close>, \<open>ys\<close> in which the samplers produce the indices.
\<close>

theorem drop_last_policy:
  assumes "0 < r" and "r < batch_size a"
    and "train_size env = batch_size a * k + r" and "val_size env = batch_size a * k + r"
    and "length xs = train_size env" and "length ys = val_size env"
  shows "map length (iterate (fst (fst (load_data a env w))) xs) = replicate k (batch_size a)
       \<and> map length (iterate (snd (fst (load_data a env w))) ys) = replicate k (batch_size a) @ [r]
       \<and> len_loader (fst (fst (load_data a env w))) = k
       \<and> len_loader (snd (fst (load_data a env w))) = k + 1
       \<and> (case startup_anime a env w of
             Raise e w' \<Rightarrow> apex a \<and> \<not> amp_available env
           | Return s w' \<Rightarrow>
               map length (iterate (train_loader s) xs) = replicate k (batch_size a)
             \<and> map length (iterate (val_loader s) ys) = replicate k (batch_size a) @ [r]
             \<and> len_loader (train_loader s) = k
             \<and> len_loader (val_loader s) = k + 1)"
proof -
  have b: "0 < batch_size a" using assms(1,2) by simp
  have t: "map length (batches (batch_size a) True xs) = replicate k (batch_size a)"
    using batches_sizes [OF b assms(2), of xs k True] assms by simp
  have v: "map length (batches (batch_size a) False ys) = replicate k (batch_size a) @ [r]"
    using batches_sizes [OF b assms(2), of ys k False] assms by simp
  have lt: "len_loader (DataLoader (train_size env) (batch_size a) (workers a) True) = k"
    using len_loader_drop [OF assms(2)] assms(3) by simp
  have lv: "len_loader (DataLoader (val_size env) (batch_size a) (workers a) False) = k + 1"
    using len_loader_keep [OF assms(1,2)] assms(4) by simp
  have it: "iterate (DataLoader (train_size env) (batch_size a) (workers a) True) xs
              = batches (batch_size a) True xs"
    by (simp add: iterate_def DataLoader_def)
  have iv: "iterate (DataLoader (val_size env) (batch_size a) (workers a) False) ys
              = batches (batch_size a) False ys"
    by (simp add: iterate_def DataLoader_def)
  have food: "fst (load_data a env w) =
      (DataLoader (train_size env) (batch_size a) (workers a) True,
       DataLoader (val_size env) (batch_size a) (workers a) False)"
    by (simp add: load_data_def)
  show ?thesis
    using startup_anime_loaders [of a env w]
    by (simp add: food it iv t v lt lv split: outcome.splits)
qed

theorem drop_last_policy_witness:
  "map length (iterate (fst (fst (load_data args0 env0 world0))) [0..<55::nat]) = [10, 10, 10, 10, 10]
 \<and> map length (iterate (snd (fst (load_data args0 env0 world0))) [0..<55::nat]) = [10, 10, 10, 10, 10, 5]
 \<and> len_loader (fst (fst (load_data args0 env0 world0))) = 5
 \<and> len_loader (snd (fst (load_data args0 env0 world0))) = 6"
  using drop_last_policy [of 5 args0 env0 5 "[0..<55]" "[0..<55]" world0]
  by (simp add: args0_def env0_def numeral_eq_Suc)


section \<open>Evaluation of concrete runs\<close>

lemmas model_defs =
  args0_def env0_def world0_def startup_dist_def startup_anime_def startup_food101_def
  and_then_def ensure_weight_dir_def os_path_exists_def os_mkdir_def os_makedirs_def
  init_distributed_mode_def per_process_def int_truediv_def DataLoader_def load_data_def
  apply_precision_def apply_parallel_def precision_wrap_def amp_initialize_def
  sampler_length_def world_size_def rank_def emit_def

lemmas run_defs = model_defs main_food101_def main_anime_def main_dist_def
  evaluate_food101_def evaluate_anime_def evaluate_dist_def prepare_food101_def prepare_anime_def
  restart_food101_def epoch_food101_def epoch_anime_def epoch_dist_def finish_def
  train_def validate_def scheduler_step_def load_state_dict_def torch_save_def torch_load_def
  save_on_master_def is_main_process_def parent_exists_def dirname_def rstrip_slash_def
  weight_name_def checkpoint_name_def saved_weight_def bundle_of_def len_loader_def

section \<open>Per-process batch size and workers\<close>



lemma per_process_cases:
  "per_process a n w =
     (if distributed a then
        (if n = 0 then Raise ZeroDivisionError w
         else Return (a\<lparr>batch_size := batch_size a div n, workers := (workers a + n - 1) div n\<rparr>) w)
      else Return a w)"
  by (simp add: per_process_def int_truediv_def)

lemma apply_precision_loaders [simp]:
  "train_loader (fst (apply_precision s w)) = train_loader s"
  "val_loader (fst (apply_precision s w)) = val_loader s"
  "cur_args (fst (apply_precision s w)) = cur_args s"
  by (simp_all add: apply_precision_def)

lemma apply_parallel_loaders [simp]:
  "train_loader (fst (apply_parallel c W s w)) = train_loader s"
  "val_loader (fst (apply_parallel c W s w)) = val_loader s"
  "cur_args (fst (apply_parallel c W s w)) = cur_args s"
  by (simp_all add: apply_parallel_def)







section \<open>Mixed precision\<close>

text \<open>
  C5: when mixed precision is requested and \<^verbatim>\<open>apex.amp\<close> is unavailable, each script raises
  the runtime error with nothing done but the seeding: no directory, device, writer, loader,
  model or optimizer has been made. When mixed precision is not requested, the precision
  step returns the model and the optimizer unchanged and logs nothing.
\<close>

theorem mixed_precision_fail_fast:
  "(apex a \<and> \<not> amp_available env \<longrightarrow>
       main_anime a env w = Raise (RuntimeError ''apex'') (emit (SeedEverything (seed a)) w)
     \<and> main_food101 a env w = Raise (RuntimeError ''apex'') (emit (SeedEverything (seed a)) w)
     \<and> main_dist a env w = Raise (RuntimeError ''apex'') (emit (SeedEverything (seed a)) w))
   \<and> (\<not> apex (cur_args s) \<longrightarrow> apply_precision s w = (s, w))
   \<and> (\<not> apex a \<longrightarrow> precision_wrap a (m, opt) = (m, opt))"
  by (simp add: main_anime_def main_food101_def main_dist_def startup_anime_def
      startup_food101_def startup_dist_def and_then_def apply_precision_def precision_wrap_def)

theorem mixed_precision_fail_fast_witness:
  "apex (args0\<lparr>apex := True\<rparr>) \<and> \<not> amp_available env0
   \<and> main_anime (args0\<lparr>apex := True\<rparr>) env0 world0
        = Raise (RuntimeError ''apex'') \<lparr>fs = Map.empty, trace = [SeedEverything 1]\<rparr>
   \<and> main_food101 (args0\<lparr>apex := True\<rparr>) env0 world0
        = Raise (RuntimeError ''apex'') \<lparr>fs = Map.empty, trace = [SeedEverything 1]\<rparr>
   \<and> \<not> apex args0 \<and> precision_wrap args0 (Net, SGD) = (Net, SGD)"
  using mixed_precision_fail_fast [where a = "args0\<lparr>apex := True\<rparr>" and env = env0 and w = world0]
    mixed_precision_fail_fast [where a = args0 and m = Net and opt = SGD]
  by (simp add: args0_def env0_def world0_def emit_def)

section \<open>Output directories\<close>

text \<open>
  C9: every directory the program writes weights or checkpoints into is created at start-up.
  The food101 script creates \<^verbatim>\<open>args.path2weight\<close> and writes the resume checkpoint into
  \<^verbatim>\<open>weight/\<close>: started with \<^verbatim>\<open>path2weight = out\<close> in an empty working directory, it creates
  \<^verbatim>\<open>out\<close>, never creates \<^verbatim>\<open>weight\<close>, and the first checkpoint write, in epoch 1, raises.
\<close>

theorem checkpoint_directory_missing:
  "raised (main_food101 (args0\<lparr>path2weight := ''out''\<rparr>) env0 world0)
     = Some (FileNotFoundError ''weight/exp_checkpoint.pth'')
   \<and> fs (world_of (main_food101 (args0\<lparr>path2weight := ''out''\<rparr>) env0 world0)) ''out'' = Some Dir
   \<and> fs (world_of (main_food101 (args0\<lparr>path2weight := ''out''\<rparr>) env0 world0)) ''weight'' = None
   \<and> filter is_train (trace (world_of (main_food101 (args0\<lparr>path2weight := ''out''\<rparr>) env0 world0)))
       = [Train 1 0]"
  by (simp add: run_defs Let_def upt_rec is_train_def)

section \<open>Restart\<close>

text \<open>
  C2: after a restart the iteration counter is \<open>checkpoint.epoch * len(train_loader)\<close>.
  Restarted with \<^verbatim>\<open>epochs = 5\<close> from a checkpoint of epoch 3, with 5 batches per epoch, the
  script trains epoch 4 from iteration 25 and epoch 5 from iteration 30, whereas an
  uninterrupted run starts epoch \<open>e\<close> at iteration \<open>(e - 1) * 5\<close>.
\<close>

theorem restart_iteration_counter:
  "filter is_train (trace (world_of (main_food101 (args0\<lparr>restart := True, epochs := 5\<rparr>) env0 world_ckpt)))
     = [Train 4 25, Train 5 30]
   \<and> len_loader (fst (fst (load_data (args0\<lparr>restart := True, epochs := 5\<rparr>) env0 world_ckpt))) = 5
   \<and> filter is_train (trace (world_of (main_food101 args0 env0 world0))) = [Train 1 0, Train 2 5]"
  by (simp add: run_defs world_ckpt_def Let_def upt_rec is_train_def)

section \<open>Best score\<close>

text \<open>
  C1: the best-weights file is written only in an epoch whose accuracy exceeds that of all
  earlier epochs. With accuracies 50 and 30, the anime and the distributed script write
  the best-weights file in both epochs, and the file holds the parameters of epoch 2 at
  the end; the food101 script keeps those of epoch 1.
\<close>

theorem best_score_never_updated:
  "val_acc env0 1 = 50 \<and> val_acc env0 2 = 30
   \<and> filter is_save (trace (world_of (main_anime args0 env0 world0)))
       = [Save saved_weight (StateDict Net [1]), Save saved_weight (StateDict Net [1, 2])]
   \<and> fs (world_of (main_anime args0 env0 world0)) saved_weight = Some (File (StateDict Net [1, 2]))
   \<and> filter is_save (trace (world_of (main_dist args0 env0 world0)))
       = [Save saved_weight (StateDict Net [1]), Save saved_weight (StateDict Net [1, 2])]
   \<and> fs (world_of (main_dist args0 env0 world0)) saved_weight = Some (File (StateDict Net [1, 2]))
   \<and> fs (world_of (main_food101 args0 env0 world0)) (weight_name args0)
       = Some (File (StateDict Net [1]))"
  by (simp add: run_defs Let_def upt_rec is_save_def)

section \<open>Start-up and evaluation of the anime and the distributed script\<close>




lemma startup_dist_returns:
  assumes "\<not> (apex a \<and> \<not> amp_available env)" and "\<not> (launch env \<noteq> None \<and> device_count env = 0)"
  shows "\<exists>w'. startup_dist a env w = Return (dist_start a env) w'
         \<and> trace w' = trace w @ dist_startup_events a env w
         \<and> fs w' = (if fs w ''weight'' = None then (fs w)(''weight'' \<mapsto> Dir) else fs w)"
proof -
  obtain w2 where e: "ensure_weight_dir (emit (SeedEverything (seed a)) w) = Return () w2"
    and t: "trace w2 = trace w @ [SeedEverything (seed a)] @ (if fs w ''weight'' = None then [Mkdir ''weight''] else [])"
    and f: "fs w2 = (if fs w ''weight'' = None then (fs w)(''weight'' \<mapsto> Dir) else fs w)"
    using ensure_weight_dir_returns [of "emit (SeedEverything (seed a)) w"] by auto
  show ?thesis
  proof (cases "launch env \<noteq> None")
    case True
    then show ?thesis using assms e t f
      by (simp add: startup_dist_def and_then_def Let_def per_process_cases init_distributed_mode_def
          dist_start_def dist_args_def dist_startup_events_def dist_unwrapped_def
          apply_precision_def apply_parallel_def precision_wrap_def amp_initialize_def)
  next
    case False
    then show ?thesis using assms e t f
      by (simp add: startup_dist_def and_then_def Let_def per_process_cases init_distributed_mode_def
          dist_start_def dist_args_def dist_startup_events_def dist_unwrapped_def
          apply_precision_def apply_parallel_def precision_wrap_def amp_initialize_def)
  qed
qed


lemma dist_args_simps [simp]:
  "evaluate (dist_args a env) = evaluate a"
  "resume (dist_args a env) = resume a"
  "epochs (dist_args a env) = epochs a"
  "apex (dist_args a env) = apex a"
  "distributed (dist_args a env) = (launch env \<noteq> None)"
  by (simp_all add: dist_args_def)

lemma dist_start_simps [simp]:
  "cur_args (dist_start a env) = dist_args a env"
  "model_without_ddp (dist_start a env) = dist_unwrapped a"
  "iteration (dist_start a env) = 0"
  "net_params (dist_start a env) = []"
  by (simp_all add: dist_start_def)


section \<open>Evaluation only\<close>




section \<open>The epoch loop of the distributed script\<close>

lemma logged_eq: "trace (world_of r) = trace w @ evs \<Longrightarrow> logged w r = evs"
  by (simp add: logged_def)

lemma world_of_and_then:
  "world_of (and_then r f) = (case r of Raise e w \<Rightarrow> w | Return x w \<Rightarrow> world_of (f x w))"
  by (simp add: and_then_def split: outcome.splits)

lemma torch_save_trace: "trace (world_of (torch_save obj q w)) = trace w @ [Save q obj]"
  by (simp add: torch_save_def Let_def)

lemma world_of_and_then_Return [simp]:
  "world_of (and_then r (\<lambda>u w. Return x w)) = world_of r"
  by (cases r) (simp_all add: and_then_def)

lemma and_then_Return_iff [simp]:
  "(and_then r (\<lambda>u w. Return x w) = Return y w') = (\<exists>u. r = Return u w' \<and> x = y)"
  by (cases r) (auto simp add: and_then_def)

lemma save_on_master_trace:
  "trace (world_of (save_on_master env obj q w)) = trace w @ (if rank env = 0 then [Save q obj] else [])"
  by (simp add: save_on_master_def is_main_process_def torch_save_trace)

lemma epoch_dist_trace:
  "trace (world_of (epoch_dist env e s w)) = trace w @ dist_segment env s e"
  by (simp add: epoch_dist_def Let_def train_def validate_def scheduler_step_def
      save_on_master_trace dist_segment_def)

lemma epoch_dist_state:
  "epoch_dist env e s w = Return s' w' \<Longrightarrow> s' = dist_next env s e"
  by (simp add: epoch_dist_def Let_def train_def validate_def scheduler_step_def
      dist_next_def split: if_splits)

lemma dist_loop_trace:
  "\<exists>n. n \<le> length es \<and> trace (world_of (epoch_loop (epoch_dist env) es s w))
       = trace w @ dist_events env s (take n es)
     \<and> (raised (epoch_loop (epoch_dist env) es s w) = None \<longrightarrow> n = length es)"
proof (induction es arbitrary: s w)
  case Nil
  then show ?case by simp
next
  case (Cons e es)
  show ?case
  proof (cases "epoch_dist env e s w")
    case (Raise err w')
    have t: "trace w' = trace w @ dist_segment env s e"
      using epoch_dist_trace [of env e s w] Raise by simp
    have l: "epoch_loop (epoch_dist env) (e # es) s w = Raise err w'"
      using Raise by simp
    have "Suc 0 \<le> length (e # es)
       \<and> trace (world_of (epoch_loop (epoch_dist env) (e # es) s w))
           = trace w @ dist_events env s (take (Suc 0) (e # es))
       \<and> (raised (epoch_loop (epoch_dist env) (e # es) s w) = None \<longrightarrow> Suc 0 = length (e # es))"
      unfolding l using t by simp
    then show ?thesis by (intro exI [of _ "Suc 0"])
  next
    case (Return s' w')
    have t: "trace w' = trace w @ dist_segment env s e"
      using epoch_dist_trace [of env e s w] Return by simp
    have s': "s' = dist_next env s e" using epoch_dist_state [OF Return] .
    from Cons.IH [of s' w'] obtain n where nn: "n \<le> length es \<and>
      trace (world_of (epoch_loop (epoch_dist env) es s' w')) = trace w' @ dist_events env s' (take n es) \<and>
      (raised (epoch_loop (epoch_dist env) es s' w') = None \<longrightarrow> n = length es)" ..
    note n = conjunct1 [OF nn] conjunct1 [OF conjunct2 [OF nn]] conjunct2 [OF conjunct2 [OF nn]]
    have l: "epoch_loop (epoch_dist env) (e # es) s w = epoch_loop (epoch_dist env) es s' w'"
      using Return by simp
    have "trace (world_of (epoch_loop (epoch_dist env) (e # es) s w))
       = trace w @ dist_events env s (take (Suc n) (e # es))"
      unfolding l n(2) t using s' by simp
    moreover have "raised (epoch_loop (epoch_dist env) (e # es) s w) = None \<longrightarrow> Suc n = length (e # es)"
      unfolding l using n(3) by simp
    moreover have "Suc n \<le> length (e # es)" using n(1) by simp
    ultimately show ?thesis by (intro exI [of _ "Suc n"] conjI)
  qed
qed

lemma dist_next_simps [simp]:
  "cur_args (dist_next env s e) = cur_args s"
  "best_acc (dist_next env s e) = best_acc s"
  "model_without_ddp (dist_next env s e) = model_without_ddp s"
  "train_loader (dist_next env s e) = train_loader s"
  by (simp_all add: dist_next_def)

lemma notified_from_append:
  "notified_from prev (xs @ ys) = (notified_from prev xs \<and> notified_from (last_of prev xs) ys)"
  by (induction xs arbitrary: prev) (auto simp add: last_of_def)

lemma quiet_append [simp]: "quiet (xs @ ys) = (quiet xs \<and> quiet ys)"
  by (simp add: quiet_def)

lemma quiet_Cons: "quiet (ev # evs) = ((case ev of Train e i \<Rightarrow> False | SetEpoch e \<Rightarrow> False | Save q obj \<Rightarrow> False | _ \<Rightarrow> True) \<and> quiet evs)"
  by (simp add: quiet_def)


lemma quiet_notified: "quiet evs \<Longrightarrow> notified_from prev evs"
  by (induction evs arbitrary: prev) (auto simp add: quiet_Cons split: event.splits)

lemma quiet_trained: "quiet evs \<Longrightarrow> trained evs = []"
  by (induction evs) (auto simp add: quiet_Cons trained_def split: event.splits)

lemma quiet_no_set_epoch: "quiet evs \<Longrightarrow> SetEpoch e \<notin> set evs"
  by (induction evs) (auto simp add: quiet_Cons split: event.splits)



lemma trained_append [simp]: "trained (xs @ ys) = trained xs @ trained ys"
  by (simp add: trained_def)

lemma notified_segment:
  "distributed (cur_args s) \<Longrightarrow> notified_from prev (dist_segment env s e)"
  by (simp add: dist_segment_def)

lemma dist_segment_nonempty: "dist_segment env s e \<noteq> []"
  by (simp add: dist_segment_def)

lemma notified_dist_events:
  "distributed (cur_args s) \<Longrightarrow> notified_from prev (dist_events env s es)"
proof (induction es arbitrary: s prev)
  case Nil
  then show ?case by simp
next
  case (Cons e es)
  have "distributed (cur_args (dist_next env s e))" using Cons.prems by simp
  from Cons.IH [OF this] notified_segment [OF Cons.prems]
  show ?case by (simp add: notified_from_append)
qed

lemma trained_dist_events: "trained (dist_events env s es) = es"
  by (induction es arbitrary: s) (simp_all add: dist_segment_def trained_def)

lemma no_set_epoch_dist_events:
  "\<not> distributed (cur_args s) \<Longrightarrow> SetEpoch e \<notin> set (dist_events env s es)"
  by (induction es arbitrary: s) (simp_all add: dist_segment_def)


lemma notified_sound:
  assumes "notified_from None evs" and "evs = pre @ Train e i # post"
  shows "\<exists>pre'. pre = pre' @ [SetEpoch e]"
proof -
  have "notified_from (last_of None pre) (Train e i # post)"
    using assms by (simp add: notified_from_append)
  then have "last_of None pre = Some (SetEpoch e)" by simp
  then have "pre \<noteq> []" and "last pre = SetEpoch e"
    by (simp_all add: last_of_def split: if_splits)
  then have "pre = butlast pre @ [SetEpoch e]" by (metis append_butlast_last_id)
  then show ?thesis ..
qed

lemma finish_trace:
  "trace (world_of (and_then r finish)) = trace (world_of r) @ (if raised r = None then [CloseWriter] else [])"
  by (cases r) (simp_all add: and_then_def finish_def)

lemma finish_raised: "raised (and_then r finish) = raised r"
  by (cases r) (simp_all add: and_then_def finish_def)

lemma quiet_dist_startup_events: "quiet (dist_startup_events a env w)"
  by (simp add: dist_startup_events_def quiet_def)

lemma evaluate_dist_quiet:
  "\<exists>evs. trace (world_of (evaluate_dist s w)) = trace w @ evs \<and> quiet evs"
proof (cases "fs w (resume (cur_args s))")
  case None
  then have "trace (world_of (evaluate_dist s w)) = trace w @ [Load (resume (cur_args s))]"
    by (simp add: evaluate_dist_def and_then_def torch_load_def)
  moreover have "quiet [Load (resume (cur_args s))]" by (simp add: quiet_def)
  ultimately show ?thesis by (intro exI conjI)
next
  case (Some nd)
  show ?thesis
  proof (cases nd)
    case Dir
    then have "trace (world_of (evaluate_dist s w)) = trace w @ [Load (resume (cur_args s))]"
      using Some by (simp add: evaluate_dist_def and_then_def torch_load_def)
    moreover have "quiet [Load (resume (cur_args s))]" by (simp add: quiet_def)
    ultimately show ?thesis by (intro exI conjI)
  next
    case (File obj)
    show ?thesis
    proof (cases obj)
      case (StateDict m p)
      then have "trace (world_of (evaluate_dist s w)) = trace w @
          [Load (resume (cur_args s)), LoadStateDict (model_without_ddp s) p, Validate (iteration s)]"
        using Some File
        by (simp add: evaluate_dist_def and_then_def torch_load_def load_state_dict_def validate_def)
      moreover have "quiet [Load (resume (cur_args s)), LoadStateDict (model_without_ddp s) p,
          Validate (iteration s)]" by (simp add: quiet_def)
      ultimately show ?thesis by (intro exI conjI)
    next
      case (Bundle ck)
      then have "trace (world_of (evaluate_dist s w)) = trace w @ [Load (resume (cur_args s))]"
        using Some File
        by (simp add: evaluate_dist_def and_then_def torch_load_def load_state_dict_def)
      moreover have "quiet [Load (resume (cur_args s))]" by (simp add: quiet_def)
      ultimately show ?thesis by (intro exI conjI)
    qed
  qed
qed

lemma startup_dist_apex:
  "apex a \<and> \<not> amp_available env \<Longrightarrow>
     startup_dist a env w = Raise (RuntimeError ''apex'') (emit (SeedEverything (seed a)) w)"
  by (simp add: startup_dist_def)

lemma startup_dist_zero:
  assumes "\<not> (apex a \<and> \<not> amp_available env)" and "launch env \<noteq> None" and "device_count env = 0"
  shows "\<exists>w'. startup_dist a env w = Raise ZeroDivisionError w'
     \<and> trace w' = trace w @ [SeedEverything (seed a)]
          @ (if fs w ''weight'' = None then [Mkdir ''weight''] else [])
          @ [InitDistributed, Device, Writer]"
proof -
  obtain w2 where e: "ensure_weight_dir (emit (SeedEverything (seed a)) w) = Return () w2"
    and t: "trace w2 = trace w @ [SeedEverything (seed a)] @ (if fs w ''weight'' = None then [Mkdir ''weight''] else [])"
    using ensure_weight_dir_returns [of "emit (SeedEverything (seed a)) w"] by auto
  show ?thesis using assms e t
    by (simp add: startup_dist_def and_then_def Let_def per_process_cases init_distributed_mode_def)
qed

lemma dist_start_reset: "(dist_start a env)\<lparr>sched_epoch := 0, best_acc := 0\<rparr> = dist_start a env"
  by (simp add: dist_start_def)

lemma main_dist_events:
  "\<exists>evs. trace (world_of (main_dist a env w)) = trace w @ evs \<and> dist_shape a env (main_dist a env w) evs"
proof (cases "apex a \<and> \<not> amp_available env")
  case True
  have m: "main_dist a env w = Raise (RuntimeError ''apex'') (emit (SeedEverything (seed a)) w)"
    by (simp add: main_dist_def startup_dist_apex [OF True] and_then_def)
  have "trace (world_of (main_dist a env w)) = trace w @ [SeedEverything (seed a)]"
    unfolding m by simp
  moreover have "dist_shape a env (main_dist a env w) [SeedEverything (seed a)]"
    unfolding m by (simp add: dist_shape_def quiet_def)
  ultimately show ?thesis by (intro exI conjI)
next
  case noapex: False
  show ?thesis
  proof (cases "launch env \<noteq> None \<and> device_count env = 0")
    case True
    from startup_dist_zero [OF noapex, of w] True obtain w' where
      s: "startup_dist a env w = Raise ZeroDivisionError w'"
      and t: "trace w' = trace w @ [SeedEverything (seed a)]
          @ (if fs w ''weight'' = None then [Mkdir ''weight''] else [])
          @ [InitDistributed, Device, Writer]" by auto
    have m: "main_dist a env w = Raise ZeroDivisionError w'"
      by (simp add: main_dist_def s and_then_def)
    have "trace (world_of (main_dist a env w)) = trace w @ ([SeedEverything (seed a)]
          @ (if fs w ''weight'' = None then [Mkdir ''weight''] else [])
          @ [InitDistributed, Device, Writer])"
      unfolding m using t by simp
    moreover have "dist_shape a env (main_dist a env w) ([SeedEverything (seed a)]
          @ (if fs w ''weight'' = None then [Mkdir ''weight''] else [])
          @ [InitDistributed, Device, Writer])"
      unfolding m by (simp add: dist_shape_def quiet_def)
    ultimately show ?thesis by (intro exI conjI)
  next
    case nozero: False
    from startup_dist_returns [OF noapex nozero, of w] obtain w1 where
      s: "startup_dist a env w = Return (dist_start a env) w1"
      and t: "trace w1 = trace w @ dist_startup_events a env w" by auto
    show ?thesis
    proof (cases "evaluate a")
      case True
      have m: "main_dist a env w = evaluate_dist (dist_start a env) w1"
        using True by (simp add: main_dist_def s and_then_def)
      from evaluate_dist_quiet [of "dist_start a env" w1] obtain evs where
        e: "trace (world_of (evaluate_dist (dist_start a env) w1)) = trace w1 @ evs \<and> quiet evs" ..
      have "trace (world_of (main_dist a env w)) = trace w @ (dist_startup_events a env w @ evs)"
        unfolding m using e t by simp
      moreover have "dist_shape a env (main_dist a env w) (dist_startup_events a env w @ evs)"
        using e True by (simp add: dist_shape_def quiet_dist_startup_events)
      ultimately show ?thesis by (intro exI conjI)
    next
      case False
      define es where "es = [1..<epochs a + 1]"
      have len: "length es = epochs a" unfolding es_def by (simp del: upt_Suc)
      let ?loop = "epoch_loop (epoch_dist env) es (dist_start a env) (emit Scheduler w1)"
      have m: "main_dist a env w = and_then ?loop finish"
        unfolding es_def using False
        by (simp add: main_dist_def s and_then_def Let_def dist_start_reset del: upt_Suc)
      from dist_loop_trace [of es env "dist_start a env" "emit Scheduler w1"]
      obtain n where nn: "n \<le> length es \<and>
          trace (world_of ?loop) = trace (emit Scheduler w1) @ dist_events env (dist_start a env) (take n es) \<and>
          (raised ?loop = None \<longrightarrow> n = length es)" ..
      let ?evs = "(dist_startup_events a env w @ [Scheduler]) @ dist_events env (dist_start a env) (take n es)
            @ (if raised (main_dist a env w) = None then [CloseWriter] else [])"
      have r: "raised (main_dist a env w) = raised ?loop" unfolding m by (rule finish_raised)
      have tr: "trace (world_of (main_dist a env w)) = trace w @ ?evs"
        unfolding r unfolding m finish_trace using nn t by simp
      have q: "quiet (dist_startup_events a env w @ [Scheduler])"
        by (simp add: quiet_dist_startup_events) (simp add: quiet_def)
      have n1: "n \<le> epochs a" using nn len by simp
      have n2: "raised (main_dist a env w) = None \<longrightarrow> n = epochs a"
        unfolding r using nn len by simp
      have "dist_shape a env (main_dist a env w) ?evs"
        unfolding dist_shape_def
        apply (rule disjI2)
        apply (rule exI [of _ "dist_startup_events a env w @ [Scheduler]"])
        apply (rule exI [of _ n])
        apply (intro conjI)
        apply (rule q)
        apply (rule n1)
        apply (rule False)
        apply (simp only: es_def)
        apply (rule n2)
        done
      with tr have "trace (world_of (main_dist a env w)) = trace w @ ?evs
          \<and> dist_shape a env (main_dist a env w) ?evs" by (rule conjI)
      then show ?thesis by (rule exI)
    qed
  qed
qed

lemma dist_shape_cases:
  assumes "dist_shape a env r evs"
  obtains (quiet) "quiet evs" "raised r = None \<longrightarrow> evaluate a"
  | (loop) pre n where "quiet pre" "n \<le> epochs a" "\<not> evaluate a"
      "evs = pre @ dist_events env (dist_start a env) (take n [1..<epochs a + 1])
                   @ (if raised r = None then [CloseWriter] else [])"
      "raised r = None \<longrightarrow> n = epochs a"
proof -
  from assms have "(quiet evs \<and> (raised r = None \<longrightarrow> evaluate a))
      \<or> (\<exists>pre n. quiet pre \<and> n \<le> epochs a \<and> \<not> evaluate a
           \<and> evs = pre @ dist_events env (dist_start a env) (take n [1..<epochs a + 1])
                   @ (if raised r = None then [CloseWriter] else [])
           \<and> (raised r = None \<longrightarrow> n = epochs a))"
    unfolding dist_shape_def .
  then show thesis
  proof
    assume "quiet evs \<and> (raised r = None \<longrightarrow> evaluate a)"
    then show thesis using quiet by (elim conjE)
  next
    assume "\<exists>pre n. quiet pre \<and> n \<le> epochs a \<and> \<not> evaluate a
           \<and> evs = pre @ dist_events env (dist_start a env) (take n [1..<epochs a + 1])
                   @ (if raised r = None then [CloseWriter] else [])
           \<and> (raised r = None \<longrightarrow> n = epochs a)"
    then show thesis using loop by (elim exE conjE)
  qed
qed

lemma quiet_tail: "quiet (if c then [CloseWriter] else [])"
  by (simp add: quiet_def)

lemma dist_shape_notified:
  assumes "launch env \<noteq> None" and "dist_shape a env r evs"
  shows "notified_from None evs"
  using assms(2)
proof (cases rule: dist_shape_cases)
  case quiet
  then show ?thesis by (simp add: quiet_notified)
next
  case (loop pre n)
  have d: "distributed (cur_args (dist_start a env))" using assms(1) by simp
  show ?thesis unfolding loop(4)
    by (simp only: notified_from_append quiet_notified [OF loop(1)]
        notified_dist_events [OF d] quiet_notified [OF quiet_tail] simp_thms)
qed

lemma dist_shape_no_set_epoch:
  assumes "launch env = None" and "dist_shape a env r evs"
  shows "SetEpoch e \<notin> set evs"
  using assms(2)
proof (cases rule: dist_shape_cases)
  case quiet
  then show ?thesis by (simp add: quiet_no_set_epoch)
next
  case (loop pre n)
  have d: "\<not> distributed (cur_args (dist_start a env))" using assms(1) by simp
  show ?thesis unfolding loop(4)
    using quiet_no_set_epoch [OF loop(1), of e] no_set_epoch_dist_events [OF d, of e env]
    by simp
qed

lemma dist_shape_trained:
  assumes "raised r = None" and "\<not> evaluate a" and "dist_shape a env r evs"
  shows "trained evs = [1..<epochs a + 1]"
  using assms(3)
proof (cases rule: dist_shape_cases)
  case quiet
  then show ?thesis using assms(1,2) by simp
next
  case (loop pre n)
  have n: "n = epochs a" using loop(5) assms(1) by simp
  have "take n [1..<epochs a + 1] = [1..<epochs a + 1]" unfolding n by (simp del: upt_Suc)
  then show ?thesis unfolding loop(4)
    using quiet_trained [OF loop(1)] assms(1)
    by (simp add: trained_dist_events del: upt_Suc) (simp add: trained_def)
qed

section \<open>Scripts without a sampler\<close>

lemma unnotified_refl: "unnotified w w"
  unfolding unnotified_def by (rule exI [of _ "[]"]) simp

lemma unnotified_emit: "\<not> is_set_epoch ev \<Longrightarrow> unnotified w0 w \<Longrightarrow> unnotified w0 (emit ev w)"
proof -
  assume a: "\<not> is_set_epoch ev" and "unnotified w0 w"
  then obtain evs where e: "trace w = trace w0 @ evs" "filter is_set_epoch evs = []"
    unfolding unnotified_def by auto
  have "trace (emit ev w) = trace w0 @ (evs @ [ev]) \<and> filter is_set_epoch (evs @ [ev]) = []"
    using a e by simp
  then show ?thesis unfolding unnotified_def by (rule exI)
qed

lemma unnotified_fs: "unnotified w0 w \<Longrightarrow> unnotified w0 (w\<lparr>fs := f\<rparr>)"
  by (simp add: unnotified_def)

lemma unnotified_logged:
  assumes "unnotified w (world_of r)"
  shows "filter is_set_epoch (logged w r) = []"
proof -
  from assms obtain evs where e: "trace (world_of r) = trace w @ evs" "filter is_set_epoch evs = []"
    unfolding unnotified_def by auto
  from e(1) have "logged w r = evs" by (rule logged_eq)
  then show ?thesis using e(2) by simp
qed

lemma is_set_epoch_simps [simp]:
  "\<not> is_set_epoch (SeedEverything n)"
  "\<not> is_set_epoch (Mkdir d)"
  "\<not> is_set_epoch InitDistributed"
  "\<not> is_set_epoch Device"
  "\<not> is_set_epoch Writer"
  "\<not> is_set_epoch (Loader dl b nw)"
  "\<not> is_set_epoch Model"
  "\<not> is_set_epoch Optimizer"
  "\<not> is_set_epoch AmpInitialize"
  "\<not> is_set_epoch (Parallel m)"
  "\<not> is_set_epoch (Load q)"
  "\<not> is_set_epoch (LoadStateDict m p)"
  "\<not> is_set_epoch Scheduler"
  "is_set_epoch (SetEpoch e)"
  "\<not> is_set_epoch (Train e i)"
  "\<not> is_set_epoch (Validate i)"
  "\<not> is_set_epoch SchedulerStep"
  "\<not> is_set_epoch (Save q obj)"
  "\<not> is_set_epoch CloseWriter"
  by (simp_all add: is_set_epoch_def)

lemma unnotified_and_then:
  assumes "unnotified w0 (world_of r)"
    and "\<And>x w1. unnotified w0 w1 \<Longrightarrow> unnotified w0 (world_of (f x w1))"
  shows "unnotified w0 (world_of (and_then r f))"
  using assms by (cases r) (simp_all add: and_then_def)

lemma unnotified_torch_save:
  "unnotified w0 w \<Longrightarrow> unnotified w0 (world_of (torch_save obj q w))"
  by (simp add: torch_save_def Let_def unnotified_emit unnotified_fs)

lemma unnotified_torch_load:
  "unnotified w0 w \<Longrightarrow> unnotified w0 (world_of (torch_load q w))"
  by (simp add: torch_load_def Let_def unnotified_emit split: option.splits node.splits)

lemma unnotified_load_state_dict:
  "unnotified w0 w \<Longrightarrow> unnotified w0 (world_of (load_state_dict t obj s w))"
  by (simp add: load_state_dict_def unnotified_emit split: payload.splits)

lemma unnotified_os_makedirs:
  "unnotified w0 w \<Longrightarrow> unnotified w0 (world_of (os_makedirs q w))"
  by (simp add: os_makedirs_def unnotified_emit unnotified_fs split: option.splits node.splits)

lemma unnotified_ensure_weight_dir:
  "unnotified w0 w \<Longrightarrow> unnotified w0 (world_of (ensure_weight_dir w))"
  by (simp add: ensure_weight_dir_def os_mkdir_def os_path_exists_def unnotified_emit unnotified_fs)

lemma unnotified_apply_precision:
  "unnotified w0 w \<Longrightarrow> unnotified w0 (snd (apply_precision s w))"
  by (simp add: apply_precision_def unnotified_emit)

lemma unnotified_apply_parallel:
  "unnotified w0 w \<Longrightarrow> unnotified w0 (snd (apply_parallel c W s w))"
  by (simp add: apply_parallel_def unnotified_emit)

lemma unnotified_finish:
  "unnotified w0 w \<Longrightarrow> unnotified w0 (world_of (finish s w))"
  by (simp add: finish_def unnotified_emit)

lemma unnotified_epoch_loop:
  assumes "\<And>e s w. unnotified w0 w \<Longrightarrow> unnotified w0 (world_of (body e s w))"
  shows "unnotified w0 w \<Longrightarrow> unnotified w0 (world_of (epoch_loop body es s w))"
proof (induction es arbitrary: s w)
  case Nil
  then show ?case by simp
next
  case (Cons e es)
  have b: "unnotified w0 (world_of (body e s w))" using Cons.prems by (rule assms)
  show ?case
  proof (cases "body e s w")
    case (Raise err w')
    then show ?thesis using b by simp
  next
    case (Return s' w')
    then have "unnotified w0 w'" using b by simp
    from Cons.IH [OF this] show ?thesis using Return by simp
  qed
qed

lemma unnotified_epoch_anime:
  "unnotified w0 w \<Longrightarrow> unnotified w0 (world_of (epoch_anime env e s w))"
  by (simp add: epoch_anime_def Let_def train_def validate_def scheduler_step_def
      unnotified_torch_save unnotified_emit)

lemma unnotified_epoch_food101:
  "unnotified w0 w \<Longrightarrow> unnotified w0 (world_of (epoch_food101 env e s w))"
  by (simp add: epoch_food101_def Let_def train_def validate_def scheduler_step_def
      unnotified_and_then unnotified_torch_save unnotified_emit)

lemma unnotified_evaluate_anime:
  "unnotified w0 w \<Longrightarrow> unnotified w0 (world_of (evaluate_anime env s w))"
  unfolding evaluate_anime_def
  by (intro unnotified_and_then unnotified_torch_load unnotified_load_state_dict)
     (simp_all add: Let_def validate_def unnotified_emit unnotified_apply_parallel)

lemma unnotified_evaluate_food101:
  "unnotified w0 w \<Longrightarrow> unnotified w0 (world_of (evaluate_food101 env s w))"
  unfolding evaluate_food101_def
  by (intro unnotified_and_then unnotified_torch_load unnotified_load_state_dict)
     (simp_all add: Let_def validate_def unnotified_emit unnotified_apply_parallel)

lemma unnotified_startup_anime:
  "unnotified w0 w \<Longrightarrow> unnotified w0 (world_of (startup_anime a env w))"
  by (simp add: startup_anime_def Let_def unnotified_and_then unnotified_ensure_weight_dir
      unnotified_emit)

lemma unnotified_startup_food101:
  "unnotified w0 w \<Longrightarrow> unnotified w0 (world_of (startup_food101 a env w))"
  by (simp add: startup_food101_def Let_def unnotified_and_then unnotified_os_makedirs
      unnotified_emit load_data_def)

lemma unnotified_restart_food101:
  "unnotified w0 w \<Longrightarrow> unnotified w0 (world_of (restart_food101 s w))"
  by (simp add: restart_food101_def unnotified_and_then unnotified_torch_load unnotified_emit
      split: payload.splits)

lemma unnotified_main_anime: "unnotified w (world_of (main_anime a env w))"
  unfolding main_anime_def
proof (rule unnotified_and_then)
  show "unnotified w (world_of (startup_anime a env w))"
    by (rule unnotified_startup_anime [OF unnotified_refl])
next
  fix s w1 assume u: "unnotified w w1"
  have p: "unnotified w (snd (prepare_anime env s w1))"
    using u by (simp add: prepare_anime_def Let_def unnotified_emit unnotified_apply_parallel
        unnotified_apply_precision)
  show "unnotified w (world_of (if evaluate a then evaluate_anime env s w1
       else
         let sw = prepare_anime env s w1 in
         and_then (epoch_loop (epoch_anime env) [1 ..< epochs a + 1] (fst sw) (snd sw))
           finish))"
    using u p
    by (simp add: Let_def unnotified_evaluate_anime unnotified_and_then unnotified_epoch_loop
        unnotified_epoch_anime unnotified_finish del: upt_Suc)
qed

lemma unnotified_main_food101: "unnotified w (world_of (main_food101 a env w))"
  unfolding main_food101_def
proof (rule unnotified_and_then)
  show "unnotified w (world_of (startup_food101 a env w))"
    by (rule unnotified_startup_food101 [OF unnotified_refl])
next
  fix s w1 assume u: "unnotified w w1"
  have p: "unnotified w (snd (prepare_food101 env s w1))"
    using u by (simp add: prepare_food101_def Let_def unnotified_emit unnotified_apply_parallel
        unnotified_apply_precision)
  show "unnotified w (world_of (if evaluate a then evaluate_food101 env s w1
       else
         let sw = prepare_food101 env s w1 in
         and_then (restart_food101 (fst sw) (snd sw)) (\<lambda>s1 w1.
         and_then (epoch_loop (epoch_food101 env)
                     [start_epoch (cur_args s1) ..< epochs (cur_args s1) + 1] s1 w1)
           finish)))"
    using u p
    by (simp add: Let_def unnotified_evaluate_food101 unnotified_and_then unnotified_epoch_loop
        unnotified_epoch_food101 unnotified_finish unnotified_restart_food101 del: upt_Suc)
qed

section \<open>Sampler notification\<close>

text \<open>
  C7: in a distributed run every training pass of epoch \<open>e\<close> is directly preceded by
  \<^verbatim>\<open>train_sampler.set_epoch(e)\<close>; in a non-distributed run of the script the sampler is
  never notified; a run that is not evaluate-only and completes trains the epochs
  \<open>1, \<dots>, epochs\<close> in order. The other two scripts never notify a sampler.
\<close>

theorem set_epoch_before_train:
  "trace (world_of (main_dist a env w)) = trace w @ logged w (main_dist a env w)
   \<and> (launch env \<noteq> None \<longrightarrow>
        (\<forall>pre e i post. logged w (main_dist a env w) = pre @ Train e i # post
           \<longrightarrow> (\<exists>pre'. pre = pre' @ [SetEpoch e])))
   \<and> (launch env = None \<longrightarrow> (\<forall>e. SetEpoch e \<notin> set (logged w (main_dist a env w))))
   \<and> (raised (main_dist a env w) = None \<and> \<not> evaluate a \<longrightarrow>
        trained (logged w (main_dist a env w)) = [1..<epochs a + 1])
   \<and> filter is_set_epoch (logged w (main_anime a env w)) = []
   \<and> filter is_set_epoch (logged w (main_food101 a env w)) = []"
proof -
  from main_dist_events [of a env w] obtain evs where
    e: "trace (world_of (main_dist a env w)) = trace w @ evs \<and> dist_shape a env (main_dist a env w) evs" ..
  then have t: "trace (world_of (main_dist a env w)) = trace w @ evs"
    and sh: "dist_shape a env (main_dist a env w) evs" by (rule conjunct1, rule conjunct2)
  have l: "logged w (main_dist a env w) = evs" using t by (rule logged_eq)
  have 1: "launch env \<noteq> None \<longrightarrow>
        (\<forall>pre e i post. evs = pre @ Train e i # post \<longrightarrow> (\<exists>pre'. pre = pre' @ [SetEpoch e]))"
  proof (intro impI allI)
    fix pre e i post
    assume "launch env \<noteq> None" and "evs = pre @ Train e i # post"
    then show "\<exists>pre'. pre = pre' @ [SetEpoch e]"
      using notified_sound [OF dist_shape_notified [OF _ sh]] by simp
  qed
  have 2: "launch env = None \<longrightarrow> (\<forall>e. SetEpoch e \<notin> set evs)"
    using dist_shape_no_set_epoch [OF _ sh] by simp
  have 3: "raised (main_dist a env w) = None \<and> \<not> evaluate a \<longrightarrow> trained evs = [1..<epochs a + 1]"
    using dist_shape_trained [OF _ _ sh] by simp
  have 4: "filter is_set_epoch (logged w (main_anime a env w)) = []"
    by (rule unnotified_logged [OF unnotified_main_anime])
  have 5: "filter is_set_epoch (logged w (main_food101 a env w)) = []"
    by (rule unnotified_logged [OF unnotified_main_food101])
  show ?thesis unfolding l using t 1 2 3 4 5 by (intro conjI)
qed

theorem set_epoch_before_train_witness:
  "launch (ranks2 0) \<noteq> None
   \<and> logged world0 (main_dist args0 (ranks2 0) world0)
       = [SeedEverything 1, Mkdir ''weight'', InitDistributed, Device, Writer,
          Loader True 5 2, Loader False 5 2, Model, Optimizer,
          Parallel (DistributedDataParallel Net), Scheduler, SetEpoch 1] @ Train 1 0
         # [Validate 5, SchedulerStep, Save saved_weight (StateDict Net [1]),
            SetEpoch 2, Train 2 5, Validate 10, SchedulerStep,
            Save saved_weight (StateDict Net [1, 2]), CloseWriter]
   \<and> (\<exists>pre'. [SeedEverything 1, Mkdir ''weight'', InitDistributed, Device, Writer,
          Loader True 5 2, Loader False 5 2, Model, Optimizer,
          Parallel (DistributedDataParallel Net), Scheduler, SetEpoch 1] = pre' @ [SetEpoch 1])
   \<and> launch env0 = None
   \<and> SetEpoch 1 \<notin> set (logged world0 (main_dist args0 env0 world0))
   \<and> raised (main_dist args0 (ranks2 0) world0) = None \<and> \<not> evaluate args0
   \<and> trained (logged world0 (main_dist args0 (ranks2 0) world0)) = [1, 2]"
proof -
  have l: "logged world0 (main_dist args0 (ranks2 0) world0)
       = [SeedEverything 1, Mkdir ''weight'', InitDistributed, Device, Writer,
          Loader True 5 2, Loader False 5 2, Model, Optimizer,
          Parallel (DistributedDataParallel Net), Scheduler, SetEpoch 1] @ Train 1 0
         # [Validate 5, SchedulerStep, Save saved_weight (StateDict Net [1]),
            SetEpoch 2, Train 2 5, Validate 10, SchedulerStep,
            Save saved_weight (StateDict Net [1, 2]), CloseWriter]"
    by (simp add: logged_def ranks2_def run_defs Let_def upt_rec)
  have h: "launch (ranks2 0) \<noteq> None" "launch env0 = None" "\<not> evaluate args0"
    by (simp_all add: ranks2_def env0_def args0_def)
  have r: "raised (main_dist args0 (ranks2 0) world0) = None"
    by (simp add: ranks2_def run_defs Let_def upt_rec)
  note t = set_epoch_before_train [where a = args0 and env = "ranks2 0" and w = world0]
  note t0 = set_epoch_before_train [where a = args0 and env = env0 and w = world0]
  have 1: "\<exists>pre'. [SeedEverything 1, Mkdir ''weight'', InitDistributed, Device, Writer,
          Loader True 5 2, Loader False 5 2, Model, Optimizer,
          Parallel (DistributedDataParallel Net), Scheduler, SetEpoch 1] = pre' @ [SetEpoch 1]"
    using t h(1) l by blast
  have 2: "SetEpoch 1 \<notin> set (logged world0 (main_dist args0 env0 world0))"
    using t0 h(2) by blast
  have "trained (logged world0 (main_dist args0 (ranks2 0) world0)) = [1..<epochs args0 + 1]"
    using t r h(3) by blast
  moreover have "[1..<epochs args0 + 1] = [1, 2]" by (simp add: args0_def upt_rec)
  ultimately have 3: "trained (logged world0 (main_dist args0 (ranks2 0) world0)) = [1, 2]"
    by simp
  show ?thesis using l h r 1 2 3 by (intro conjI)
qed

section \<open>Saves per epoch\<close>

lemma is_train_simps [simp]:
  "\<not> is_train (SeedEverything n)"
  "\<not> is_train (Mkdir d)"
  "\<not> is_train InitDistributed"
  "\<not> is_train Device"
  "\<not> is_train Writer"
  "\<not> is_train (Loader dl b nw)"
  "\<not> is_train Model"
  "\<not> is_train Optimizer"
  "\<not> is_train AmpInitialize"
  "\<not> is_train (Parallel m)"
  "\<not> is_train (Load q)"
  "\<not> is_train (LoadStateDict m p)"
  "\<not> is_train Scheduler"
  "\<not> is_train (SetEpoch e)"
  "is_train (Train e i)"
  "\<not> is_train (Validate i)"
  "\<not> is_train SchedulerStep"
  "\<not> is_train (Save q obj)"
  "\<not> is_train CloseWriter"
  by (simp_all add: is_train_def)

lemma is_save_simps [simp]:
  "\<not> is_save (SeedEverything n)"
  "\<not> is_save (Mkdir d)"
  "\<not> is_save InitDistributed"
  "\<not> is_save Device"
  "\<not> is_save Writer"
  "\<not> is_save (Loader dl b nw)"
  "\<not> is_save Model"
  "\<not> is_save Optimizer"
  "\<not> is_save AmpInitialize"
  "\<not> is_save (Parallel m)"
  "\<not> is_save (Load q)"
  "\<not> is_save (LoadStateDict m p)"
  "\<not> is_save Scheduler"
  "\<not> is_save (SetEpoch e)"
  "\<not> is_save (Train e i)"
  "\<not> is_save (Validate i)"
  "\<not> is_save SchedulerStep"
  "is_save (Save q obj)"
  "\<not> is_save CloseWriter"
  by (simp_all add: is_save_def)

lemma is_loader_simps [simp]:
  "\<not> is_loader (SeedEverything n)"
  "\<not> is_loader (Mkdir d)"
  "\<not> is_loader InitDistributed"
  "\<not> is_loader Device"
  "\<not> is_loader Writer"
  "is_loader (Loader dl b nw)"
  "\<not> is_loader Model"
  "\<not> is_loader Optimizer"
  "\<not> is_loader AmpInitialize"
  "\<not> is_loader (Parallel m)"
  "\<not> is_loader (Load q)"
  "\<not> is_loader (LoadStateDict m p)"
  "\<not> is_loader Scheduler"
  "\<not> is_loader (SetEpoch e)"
  "\<not> is_loader (Train e i)"
  "\<not> is_loader (Validate i)"
  "\<not> is_loader SchedulerStep"
  "\<not> is_loader (Save q obj)"
  "\<not> is_loader CloseWriter"
  by (simp_all add: is_loader_def)

lemma is_validate_simps [simp]:
  "\<not> is_validate (SeedEverything n)"
  "\<not> is_validate (Mkdir d)"
  "\<not> is_validate InitDistributed"
  "\<not> is_validate Device"
  "\<not> is_validate Writer"
  "\<not> is_validate (Loader dl b nw)"
  "\<not> is_validate Model"
  "\<not> is_validate Optimizer"
  "\<not> is_validate AmpInitialize"
  "\<not> is_validate (Parallel m)"
  "\<not> is_validate (Load q)"
  "\<not> is_validate (LoadStateDict m p)"
  "\<not> is_validate Scheduler"
  "\<not> is_validate (SetEpoch e)"
  "\<not> is_validate (Train e i)"
  "is_validate (Validate i)"
  "\<not> is_validate SchedulerStep"
  "\<not> is_validate (Save q obj)"
  "\<not> is_validate CloseWriter"
  by (simp_all add: is_validate_def)












section \<open>Rank-gated saving\<close>



section \<open>The epoch loop of the food101 script\<close>





lemma bundle_epochs_append [simp]: "bundle_epochs (xs @ ys) = bundle_epochs xs @ bundle_epochs ys"
  by (simp add: bundle_epochs_def)












lemma trained_Nil [simp]: "trained [] = []"
  by (simp add: trained_def)




section \<open>Resume checkpoint\<close>




end
